theory Spec2Isabelle
  imports Complex_Main
begin

section \<open>Input unification layer: gamepad adapter and input coordinator\<close>

text \<open>
  A shallow embedding of \<^verbatim>\<open>GamepadManager\<close> (src/gamepad.js) and of the per-frame
  \<^verbatim>\<open>InputManager.update\<close> (src/input.js). Axis values and timestamps are JavaScript
  numbers, that is finite IEEE 754 doubles; a double is the \<^typ>\<open>real\<close> it denotes.
  Comparisons and \<^verbatim>\<open>Math.abs\<close> are exact on doubles. The one arithmetic operation of
  \<^verbatim>\<open>update\<close>, the sum of the timestamp and a delay, rounds: it is \<open>jsAdd\<close> below.
  A \<^verbatim>\<open>NaN\<close> or missing axis never reaches the resolver, because
  \<^verbatim>\<open>getStick\<close> reads every axis as \<^verbatim>\<open>this.axes[i] || 0\<close>.
  \<^verbatim>\<open>KeyboardManager\<close> is not part of the sources: what \<^verbatim>\<open>update\<close> asks of
  it on a frame (\<^verbatim>\<open>justPressed('SELECT')\<close> and \<^verbatim>\<open>getArrowDir()\<close>) is an input of the
  frame. Console logging, the debug overlay and the fire-and-forget rumble neither change the
  managers' state nor emit events, and are left out.
\<close>

subsection \<open>Data model\<close>

text \<open>
  The browser's Gamepad object as the code reads it: \<^verbatim>\<open>p.connected\<close>,
  \<^verbatim>\<open>p.buttons[i].pressed\<close> and \<^verbatim>\<open>p.axes\<close>.
\<close>

record gamepad_obj =
  connected :: bool
  buttons :: "bool list"
  axes :: "real list"

text \<open>
  The fields of \<^verbatim>\<open>GamepadManager\<close> that \<^verbatim>\<open>update\<close> writes: \<^verbatim>\<open>this.pad\<close>,
  \<^verbatim>\<open>this._prevButtons\<close>, \<^verbatim>\<open>this._justPressed\<close> and \<^verbatim>\<open>this.axes\<close>.
\<close>

record gamepad_manager =
  gm_pad :: "gamepad_obj option"
  gm_prevButtons :: "bool list"
  gm_justPressed :: "bool list"
  gm_axes :: "real list"

datatype direction = DirLeft | DirRight | DirUp | DirDown

datatype nav_mode = Edge | Repeat

datatype device = Keyboard | Gamepad

datatype event = Select device | Nav direction nav_mode

record dpad =
  dpad_up :: bool
  dpad_down :: bool
  dpad_left :: bool
  dpad_right :: bool

text \<open>
  The fields of \<^verbatim>\<open>InputManager\<close> that \<^verbatim>\<open>update\<close> reads and writes:
  \<^verbatim>\<open>this.gamepad\<close>, \<^verbatim>\<open>this.preferGamepad\<close>, \<^verbatim>\<open>this._activeDir\<close>
  (\<^verbatim>\<open>null\<close> is \<open>None\<close>) and \<^verbatim>\<open>this._nextRepeatAt\<close>.
\<close>

record input_manager =
  im_gamepad :: gamepad_manager
  im_preferGamepad :: bool
  im_activeDir :: "direction option"
  im_nextRepeatAt :: real

text \<open>
  What one call of \<^verbatim>\<open>update(ts)\<close> reads from outside: the timestamp, the array returned
  by \<^verbatim>\<open>navigator.getGamepads()\<close> (entries may be \<^verbatim>\<open>null\<close>), and the keyboard
  adapter's answers.
\<close>

record frame =
  f_ts :: real
  f_pads :: "gamepad_obj option list"
  f_kSelect :: bool
  f_arrowDir :: "direction option"

subsection \<open>GamepadManager\<close>

text \<open>\<^verbatim>\<open>!!xs[i]\<close>: an index out of range reads \<^verbatim>\<open>undefined\<close>, which is falsy.\<close>

definition nthOrFalse :: "bool list \<Rightarrow> nat \<Rightarrow> bool" where
  "nthOrFalse xs i = (i < length xs \<and> xs ! i)"

text \<open>\<^verbatim>\<open>xs[i] || 0\<close>: a missing axis reads as 0.\<close>

definition axisOrZero :: "real list \<Rightarrow> nat \<Rightarrow> real" where
  "axisOrZero xs i = (if i < length xs then xs ! i else 0)"

text \<open>\<^verbatim>\<open>Array.from(pads).filter(p => p && p.connected)[0] || null\<close>\<close>

fun firstConnected :: "gamepad_obj option list \<Rightarrow> gamepad_obj option" where
  "firstConnected [] = None"
| "firstConnected (None # ps) = firstConnected ps"
| "firstConnected (Some p # ps) = (if connected p then Some p else firstConnected ps)"

text \<open>
  \<^verbatim>\<open>btns.map((now, i) => now && !this._prevButtons[i])\<close>: where the previous snapshot has
  no entry, \<^verbatim>\<open>!undefined\<close> is true.
\<close>

fun pressEdges :: "bool list \<Rightarrow> bool list \<Rightarrow> bool list" where
  "pressEdges [] prev = []"
| "pressEdges (now # bs) [] = now # pressEdges bs []"
| "pressEdges (now # bs) (p # ps) = (now \<and> \<not> p) # pressEdges bs ps"

text \<open>
  \<^verbatim>\<open>this.deadzone = 0.15; // Deadzone for analog sticks\<close>, set in the constructor of
  \<^verbatim>\<open>GamepadManager\<close>. No method of src/gamepad.js reads it.
\<close>

definition gm_deadzone :: real where
  "gm_deadzone = 15 / 100"

definition gamepad_init :: gamepad_manager where
  "gamepad_init = \<lparr>gm_pad = None, gm_prevButtons = [], gm_justPressed = [], gm_axes = []\<rparr>"

definition gamepad_update :: "gamepad_obj option list \<Rightarrow> gamepad_manager \<Rightarrow> gamepad_manager" where
  "gamepad_update pads g =
     (case firstConnected pads of
        Some p \<Rightarrow>
          (let btns = buttons p
           in \<lparr>gm_pad = Some p,
               gm_prevButtons = btns,
               gm_justPressed = pressEdges btns (gm_prevButtons g),
               gm_axes = axes p\<rparr>)
      | None \<Rightarrow>
          \<lparr>gm_pad = None, gm_prevButtons = [], gm_justPressed = [], gm_axes = [0, 0, 0, 0]\<rparr>)"

definition isConnected :: "gamepad_manager \<Rightarrow> bool" where
  "isConnected g = (gm_pad g \<noteq> None)"

definition getStick :: "gamepad_manager \<Rightarrow> string \<Rightarrow> real \<times> real" where
  "getStick g name =
     (if gm_pad g = None then (0, 0)
      else let x = axisOrZero (gm_axes g) 0; y = axisOrZero (gm_axes g) 1
           in if name = ''LEFT'' then (x, y) else (0, 0))"

definition getDpad :: "gamepad_manager \<Rightarrow> dpad option" where
  "getDpad g =
     (case gm_pad g of
        None \<Rightarrow> None
      | Some p \<Rightarrow>
          Some \<lparr>dpad_up = nthOrFalse (buttons p) 12,
                dpad_down = nthOrFalse (buttons p) 13,
                dpad_left = nthOrFalse (buttons p) 14,
                dpad_right = nthOrFalse (buttons p) 15\<rparr>)"

text \<open>The object literal \<^verbatim>\<open>map\<close> inside \<^verbatim>\<open>justPressed\<close>.\<close>

definition buttonIndex :: "string \<Rightarrow> nat option" where
  "buttonIndex name =
     map_of [(''A'', 0), (''B'', 1), (''X'', 2), (''Y'', 3), (''LB'', 4), (''RB'', 5),
             (''LT'', 6), (''RT'', 7), (''VIEW'', 8), (''MENU'', 9)] name"

definition justPressed :: "gamepad_manager \<Rightarrow> string \<Rightarrow> bool" where
  "justPressed g name =
     (if gm_pad g = None then False
      else case buttonIndex name of
             Some i \<Rightarrow> nthOrFalse (gm_justPressed g) i
           | None \<Rightarrow> False)"

subsection \<open>InputManager\<close>

text \<open>
  \<^verbatim>\<open>this._firstDelay\<close>, \<^verbatim>\<open>this._repeatDelay\<close> and \<^verbatim>\<open>this._deadzone\<close> are set
  in the constructor and never assigned again. The literal \<^verbatim>\<open>0.32\<close> is the double next
  above 32/100; no double lies between the two, so a double is below the one exactly when
  it is below the other.
\<close>

definition firstDelay :: real where
  "firstDelay = 220"

definition repeatDelay :: real where
  "repeatDelay = 85"

definition deadzone :: real where
  "deadzone = 32 / 100"

definition getDominantDirFromAxes :: "real \<Rightarrow> real \<Rightarrow> direction option" where
  "getDominantDirFromAxes ax ay =
     (let axAbs = \<bar>ax\<bar>; ayAbs = \<bar>ay\<bar>
      in if axAbs < deadzone \<and> ayAbs < deadzone then None
         else if axAbs \<ge> ayAbs then (if ax > 0 then Some DirRight else Some DirLeft)
         else (if ay > 0 then Some DirDown else Some DirUp))"

text \<open>
  Lines 104 to 124 of \<^verbatim>\<open>update\<close>: the direction of the frame, from the polled gamepad
  manager, the preference flag and the keyboard's arrow direction.
\<close>

definition dpadDir :: "dpad \<Rightarrow> direction option" where
  "dpadDir d =
     (if dpad_left d then Some DirLeft
      else if dpad_right d then Some DirRight
      else if dpad_up d then Some DirUp
      else if dpad_down d then Some DirDown
      else None)"

definition resolveDir :: "gamepad_manager \<Rightarrow> bool \<Rightarrow> direction option \<Rightarrow> direction option" where
  "resolveDir g prefer arrow =
     (let dir0 = (case getDpad g of
                    Some d \<Rightarrow> (if prefer then dpadDir d else None)
                  | None \<Rightarrow> None);
          dir1 = (if dir0 = None \<and> prefer
                  then (case getStick g ''LEFT'' of (x, y) \<Rightarrow> getDominantDirFromAxes x y)
                  else dir0)
      in if dir1 = None then arrow else dir1)"

text \<open>
  The sum of two JavaScript numbers is the exact sum rounded to the nearest double, ties to
  the even significand (IEEE 754 binary64). \<open>roundDouble\<close> rounds a real to a multiple
  of the spacing of the doubles around it: \<open>2\<close> to the power \<open>\<lfloor>log\<^sub>2 \<bar>x\<bar>\<rfloor> - 52\<close>,
  and at least \<open>2\<close> to the power \<open>-1074\<close>. A finite double plus 220 or 85 never
  overflows, so infinities are not needed.
\<close>

definition rne :: "real \<Rightarrow> int" where
  "rne y =
     (let f = \<lfloor>y\<rfloor>; r = y - of_int f
      in if r < 1 / 2 then f
         else if 1 / 2 < r then f + 1
         else if even f then f else f + 1)"

definition roundDouble :: "real \<Rightarrow> real" where
  "roundDouble x =
     (if x = 0 then 0
      else let e = max (\<lfloor>log 2 \<bar>x\<bar>\<rfloor> - 52) (- 1074)
           in of_int (rne (x / 2 powr of_int e)) * 2 powr of_int e)"

definition jsAdd :: "real \<Rightarrow> real \<Rightarrow> real" where
  "jsAdd a b = roundDouble (a + b)"

text \<open>
  Lines 126 to 144 of \<^verbatim>\<open>update\<close>: the edge/repeat handling, on the pair
  (\<^verbatim>\<open>_activeDir\<close>, \<^verbatim>\<open>_nextRepeatAt\<close>). It returns the new pair and the events emitted.
\<close>

type_synonym nav_timer = "direction option \<times> real"

definition navTimer :: "direction option \<Rightarrow> real \<Rightarrow> nav_timer \<Rightarrow> nav_timer \<times> event list" where
  "navTimer dir ts s =
     (case dir of
        None \<Rightarrow> ((None, 0), [])
      | Some d \<Rightarrow>
          (if fst s \<noteq> Some d then ((Some d, jsAdd ts firstDelay), [Nav d Edge])
           else if ts \<ge> snd s then ((Some d, jsAdd ts repeatDelay), [Nav d Repeat])
           else (s, [])))"

definition input_init :: input_manager where
  "input_init = \<lparr>im_gamepad = gamepad_init, im_preferGamepad = False,
                  im_activeDir = None, im_nextRepeatAt = 0\<rparr>"

definition update :: "frame \<Rightarrow> input_manager \<Rightarrow> input_manager \<times> event list" where
  "update f m =
     (let g = gamepad_update (f_pads f) (im_gamepad m);
          prefer = (if isConnected g then True else im_preferGamepad m);
          aPressed = (if prefer then justPressed g ''A'' else False);
          kSelect = f_kSelect f;
          sel = (if aPressed \<or> kSelect
                 then [Select (if prefer then Gamepad else Keyboard)] else []);
          dir = resolveDir g prefer (f_arrowDir f);
          r = navTimer dir (f_ts f) (im_activeDir m, im_nextRepeatAt m)
      in (\<lparr>im_gamepad = g, im_preferGamepad = prefer,
            im_activeDir = fst (fst r), im_nextRepeatAt = snd (fst r)\<rparr>,
          sel @ snd r))"

text \<open>The frame loop: \<^verbatim>\<open>update\<close> once per frame, the events of each frame kept apart.\<close>

fun run :: "input_manager \<Rightarrow> frame list \<Rightarrow> input_manager \<times> event list list" where
  "run m [] = (m, [])"
| "run m (f # fs) =
     (case update f m of (m1, evs) \<Rightarrow>
        (case run m1 fs of (m2, evss) \<Rightarrow> (m2, evs # evss)))"

text \<open>The timer alone, fed a sequence of timestamps and directions.\<close>

fun timerFinal :: "nav_timer \<Rightarrow> (real \<times> direction option) list \<Rightarrow> nav_timer" where
  "timerFinal s [] = s"
| "timerFinal s ((t, d) # fs) = timerFinal (fst (navTimer d t s)) fs"

fun timerOuts :: "nav_timer \<Rightarrow> (real \<times> direction option) list \<Rightarrow> event list list" where
  "timerOuts s [] = []"
| "timerOuts s ((t, d) # fs) = snd (navTimer d t s) # timerOuts (fst (navTimer d t s)) fs"


fun isNav :: "event \<Rightarrow> bool" where
  "isNav (Nav d m) = True"
| "isNav (Select s) = False"

fun isSelect :: "event \<Rightarrow> bool" where
  "isSelect (Select s) = True"
| "isSelect (Nav d m) = False"

text \<open>
  Frames for the scenarios: a frame with one connected pad (its pressed flags and axes), the
  keyboard idle; and a frame with no pad at all, the keyboard idle.
\<close>

definition padFrame :: "real \<Rightarrow> bool list \<Rightarrow> real list \<Rightarrow> frame" where
  "padFrame t bs as =
     \<lparr>f_ts = t, f_pads = [Some \<lparr>connected = True, buttons = bs, axes = as\<rparr>],
      f_kSelect = False, f_arrowDir = None\<rparr>"

definition noPadFrame :: "real \<Rightarrow> frame" where
  "noPadFrame t = \<lparr>f_ts = t, f_pads = [], f_kSelect = False, f_arrowDir = None\<rparr>"

text \<open>A pad with only d-pad left (button 14) down.\<close>

definition dpadLeftButtons :: "bool list" where
  "dpadLeftButtons =
     [False, False, False, False, False, False, False, False,
      False, False, False, False, False, False, True, False]"

section \<open>Basic facts about the adapter and the coordinator\<close>

lemma gamepad_update_Some:
  "firstConnected pads = Some p \<Longrightarrow>
   gamepad_update pads g =
     \<lparr>gm_pad = Some p, gm_prevButtons = buttons p,
      gm_justPressed = pressEdges (buttons p) (gm_prevButtons g), gm_axes = axes p\<rparr>"
  by (simp add: gamepad_update_def Let_def)

lemma gamepad_update_None:
  "firstConnected pads = None \<Longrightarrow>
   gamepad_update pads g =
     \<lparr>gm_pad = None, gm_prevButtons = [], gm_justPressed = [], gm_axes = [0, 0, 0, 0]\<rparr>"
  by (simp add: gamepad_update_def)

lemma isConnected_update: "isConnected (gamepad_update pads g) = (firstConnected pads \<noteq> None)"
  by (cases "firstConnected pads")
    (simp_all add: gamepad_update_Some gamepad_update_None isConnected_def)

lemma getDpad_Some:
  "gm_pad g = Some p \<Longrightarrow>
   getDpad g = Some \<lparr>dpad_up = nthOrFalse (buttons p) 12,
                      dpad_down = nthOrFalse (buttons p) 13,
                      dpad_left = nthOrFalse (buttons p) 14,
                      dpad_right = nthOrFalse (buttons p) 15\<rparr>"
  by (simp add: getDpad_def)

lemma navTimer_active: "fst (fst (navTimer dir ts s)) = dir"
  by (cases dir) (auto simp: navTimer_def)

lemma navTimer_events:
  "snd (navTimer dir ts s) = [] \<or> (\<exists>d md. dir = Some d \<and> snd (navTimer dir ts s) = [Nav d md])"
  by (cases dir) (auto simp: navTimer_def)

lemma update_gamepad: "im_gamepad (fst (update f m)) = gamepad_update (f_pads f) (im_gamepad m)"
  by (simp add: update_def Let_def)

lemma update_prefer:
  "im_preferGamepad (fst (update f m)) =
     (firstConnected (f_pads f) \<noteq> None \<or> im_preferGamepad m)"
  by (simp add: update_def Let_def isConnected_update)

lemma update_events:
  "snd (update f m) =
     (if (im_preferGamepad (fst (update f m)) \<and>
            justPressed (im_gamepad (fst (update f m))) ''A'') \<or> f_kSelect f
      then [Select (if im_preferGamepad (fst (update f m)) then Gamepad else Keyboard)]
      else [])
     @ snd (navTimer
             (resolveDir (im_gamepad (fst (update f m))) (im_preferGamepad (fst (update f m)))
                (f_arrowDir f))
             (f_ts f) (im_activeDir m, im_nextRepeatAt m))"
  by (simp add: update_def Let_def)

lemma update_timer:
  "(im_activeDir (fst (update f m)), im_nextRepeatAt (fst (update f m))) =
     fst (navTimer
           (resolveDir (im_gamepad (fst (update f m))) (im_preferGamepad (fst (update f m)))
              (f_arrowDir f))
           (f_ts f) (im_activeDir m, im_nextRepeatAt m))"
  by (simp add: update_def Let_def)

lemma update_activeDir:
  "im_activeDir (fst (update f m)) =
     resolveDir (im_gamepad (fst (update f m))) (im_preferGamepad (fst (update f m)))
       (f_arrowDir f)"
  using update_timer [of f m] navTimer_active
  by (metis fst_conv)

section \<open>The direction resolver\<close>

lemma abs_le_magnitude: "\<bar>x\<bar> \<le> sqrt (x\<^sup>2 + y\<^sup>2)"
  by (metis real_sqrt_abs real_sqrt_le_iff le_add_same_cancel1 zero_le_power2)

lemma abs_le_magnitude2: "\<bar>y\<bar> \<le> sqrt (x\<^sup>2 + y\<^sup>2)"
  using abs_le_magnitude [of y x] by (simp add: add.commute)

lemma below_deadzone_None:
  "\<bar>x\<bar> < deadzone \<Longrightarrow> \<bar>y\<bar> < deadzone \<Longrightarrow> getDominantDirFromAxes x y = None"
  by (simp add: getDominantDirFromAxes_def)

lemma magnitude_below_None:
  assumes "sqrt (x\<^sup>2 + y\<^sup>2) < 32 / 100"
  shows "getDominantDirFromAxes x y = None"
proof -
  have "\<bar>x\<bar> < deadzone"
    using assms abs_le_magnitude [of x y] unfolding deadzone_def by linarith
  moreover have "\<bar>y\<bar> < deadzone"
    using assms abs_le_magnitude2 [of y x] unfolding deadzone_def by linarith
  ultimately show ?thesis by (rule below_deadzone_None)
qed

text \<open>
  C7. A stick vector whose magnitude is below 0.32 gives no direction:
  \<^verbatim>\<open>_getDominantDirFromAxes\<close> returns \<^verbatim>\<open>null\<close> for it. In \<^verbatim>\<open>update\<close>, when
  moreover no d-pad direction is down, the stick and the d-pad contribute nothing, and the
  direction of the frame is whatever the keyboard fallback gives (none when no arrow is
  held).
\<close>

theorem C7_stick_below_nav_deadzone:
  assumes "sqrt (x\<^sup>2 + y\<^sup>2) < 32 / 100"
  shows "getDominantDirFromAxes x y = None \<and>
    (gm_pad g = Some p \<and> getStick g ''LEFT'' = (x, y) \<and>
     \<not> nthOrFalse (buttons p) 14 \<and> \<not> nthOrFalse (buttons p) 15 \<and>
     \<not> nthOrFalse (buttons p) 12 \<and> \<not> nthOrFalse (buttons p) 13
     \<longrightarrow> resolveDir g prefer arrow = arrow \<and> resolveDir g prefer None = None)"
proof -
  have n: "getDominantDirFromAxes x y = None"
    using assms by (rule magnitude_below_None)
  then show ?thesis
    by (auto simp: resolveDir_def getDpad_Some dpadDir_def)
qed

theorem C7_stick_below_nav_deadzone_witness:
  "sqrt ((1 / 10)\<^sup>2 + (2 / 10)\<^sup>2) < 32 / (100 :: real) \<and>
   getDominantDirFromAxes (1 / 10) (2 / 10) = None \<and>
   resolveDir (gamepad_update (f_pads (padFrame 0 [False] [1 / 10, 2 / 10])) gamepad_init)
     True None = None"
proof -
  let ?p = "\<lparr>connected = True, buttons = [False], axes = [1 / 10, 2 / 10 :: real]\<rparr>"
  let ?g = "gamepad_update (f_pads (padFrame 0 [False] [1 / 10, 2 / 10])) gamepad_init"
  have h: "sqrt ((1 / 10)\<^sup>2 + (2 / 10)\<^sup>2) < 32 / (100 :: real)"
    by (rule real_less_lsqrt) (simp_all add: power2_eq_square)
  have g: "gm_pad ?g = Some ?p \<and> getStick ?g ''LEFT'' = (1 / 10, 2 / 10) \<and>
     \<not> nthOrFalse (buttons ?p) 14 \<and> \<not> nthOrFalse (buttons ?p) 15 \<and>
     \<not> nthOrFalse (buttons ?p) 12 \<and> \<not> nthOrFalse (buttons ?p) 13"
    by (simp add: padFrame_def gamepad_update_def Let_def gamepad_init_def getStick_def
        axisOrZero_def nthOrFalse_def)
  show ?thesis
    using h g C7_stick_below_nav_deadzone [OF h, of ?g ?p True None] by blast
qed

text \<open>
  C8. A tie \<open>\<bar>x\<bar> = \<bar>y\<bar>\<close> at or above the 0.32 navigation deadzone resolves to the
  horizontal axis: right when \<open>x > 0\<close>, left otherwise, never up or down.
\<close>

theorem C8_tie_resolves_horizontal:
  "\<bar>x\<bar> = \<bar>y\<bar> \<Longrightarrow> 32 / 100 \<le> \<bar>x\<bar> \<Longrightarrow>
   getDominantDirFromAxes x y = (if x > 0 then Some DirRight else Some DirLeft)"
  by (simp add: getDominantDirFromAxes_def deadzone_def)

theorem C8_tie_resolves_horizontal_witness:
  "\<bar>- (1 / 2) :: real\<bar> = \<bar>1 / 2\<bar> \<and> 32 / 100 \<le> \<bar>- (1 / 2) :: real\<bar> \<and>
   getDominantDirFromAxes (- (1 / 2)) (1 / 2) = Some DirLeft"
  using C8_tie_resolves_horizontal [of "- (1 / 2)" "1 / 2"] by simp

text \<open>
  C6. When the gamepad is authoritative (\<^verbatim>\<open>preferGamepad\<close> is set and a pad is polled)
  and at least one of the four d-pad buttons is down, the direction of the frame is the first
  one down in the order left, right, up, down, whatever the stick axes and the keyboard say;
  \<^verbatim>\<open>update\<close> makes it the active direction of the timer. D-pad left held while the stick
  reads 0.9 toward right resolves to left.
\<close>

theorem C6_dpad_priority_over_stick:
  "(gm_pad g = Some p \<and>
    (nthOrFalse (buttons p) 14 \<or> nthOrFalse (buttons p) 15 \<or>
     nthOrFalse (buttons p) 12 \<or> nthOrFalse (buttons p) 13)
    \<longrightarrow> resolveDir g True arrow =
          Some (if nthOrFalse (buttons p) 14 then DirLeft
                else if nthOrFalse (buttons p) 15 then DirRight
                else if nthOrFalse (buttons p) 12 then DirUp
                else DirDown)) \<and>
   (firstConnected (f_pads f) = Some q \<and>
    (nthOrFalse (buttons q) 14 \<or> nthOrFalse (buttons q) 15 \<or>
     nthOrFalse (buttons q) 12 \<or> nthOrFalse (buttons q) 13)
    \<longrightarrow> im_activeDir (fst (update f m)) =
          Some (if nthOrFalse (buttons q) 14 then DirLeft
                else if nthOrFalse (buttons q) 15 then DirRight
                else if nthOrFalse (buttons q) 12 then DirUp
                else DirDown)) \<and>
   resolveDir
     (gamepad_update (f_pads (padFrame 0 dpadLeftButtons [9 / 10, 0])) gamepad_init)
     True None = Some DirLeft"
proof -
  have a: "resolveDir g' True arrow' =
          Some (if nthOrFalse (buttons p') 14 then DirLeft
                else if nthOrFalse (buttons p') 15 then DirRight
                else if nthOrFalse (buttons p') 12 then DirUp
                else DirDown)"
    if "gm_pad g' = Some p'"
      and "nthOrFalse (buttons p') 14 \<or> nthOrFalse (buttons p') 15 \<or>
           nthOrFalse (buttons p') 12 \<or> nthOrFalse (buttons p') 13"
    for g' p' arrow'
    using that(2) by (auto simp: resolveDir_def getDpad_Some [OF that(1)] dpadDir_def)
  have b: "im_activeDir (fst (update f m)) =
          Some (if nthOrFalse (buttons q) 14 then DirLeft
                else if nthOrFalse (buttons q) 15 then DirRight
                else if nthOrFalse (buttons q) 12 then DirUp
                else DirDown)"
    if q: "firstConnected (f_pads f) = Some q"
      and d: "nthOrFalse (buttons q) 14 \<or> nthOrFalse (buttons q) 15 \<or>
           nthOrFalse (buttons q) 12 \<or> nthOrFalse (buttons q) 13"
  proof -
    have "gm_pad (im_gamepad (fst (update f m))) = Some q"
      by (simp add: update_gamepad gamepad_update_Some [OF q])
    moreover have "im_preferGamepad (fst (update f m))"
      by (simp add: update_prefer q)
    ultimately show ?thesis
      using a [of "im_gamepad (fst (update f m))" q "f_arrowDir f"] d
      by (simp add: update_activeDir)
  qed
  have c: "resolveDir
     (gamepad_update (f_pads (padFrame 0 dpadLeftButtons [9 / 10, 0])) gamepad_init)
     True None = Some DirLeft"
    by (simp add: resolveDir_def getDpad_def gamepad_update_def Let_def padFrame_def
        dpadLeftButtons_def dpadDir_def nthOrFalse_def)
  show ?thesis using a b c by blast
qed

theorem C6_dpad_priority_over_stick_witness:
  "getStick (im_gamepad (fst (update (padFrame 0 dpadLeftButtons [9 / 10, 0]) input_init)))
     ''LEFT'' = (9 / 10, 0) \<and>
   getDominantDirFromAxes (9 / 10) 0 = Some DirRight \<and>
   firstConnected (f_pads (padFrame 0 dpadLeftButtons [9 / 10, 0])) =
     Some \<lparr>connected = True, buttons = dpadLeftButtons, axes = [9 / 10, 0]\<rparr> \<and>
   nthOrFalse dpadLeftButtons 14 \<and>
   im_activeDir (fst (update (padFrame 0 dpadLeftButtons [9 / 10, 0]) input_init)) =
     Some DirLeft"
proof -
  let ?q = "\<lparr>connected = True, buttons = dpadLeftButtons, axes = [9 / 10, 0 :: real]\<rparr>"
  let ?f = "padFrame 0 dpadLeftButtons [9 / 10, 0]"
  have q: "firstConnected (f_pads ?f) = Some ?q"
    by (simp add: padFrame_def)
  have l: "nthOrFalse dpadLeftButtons 14"
    by (simp add: nthOrFalse_def dpadLeftButtons_def)
  have s: "getStick (im_gamepad (fst (update ?f input_init))) ''LEFT'' = (9 / 10, 0)"
    by (simp add: update_gamepad gamepad_update_Some [OF q] getStick_def axisOrZero_def)
  have r: "getDominantDirFromAxes (9 / 10) 0 = Some DirRight"
    by (simp add: getDominantDirFromAxes_def deadzone_def)
  have "im_activeDir (fst (update ?f input_init)) = Some DirLeft"
    using C6_dpad_priority_over_stick [of _ _ _ ?f ?q input_init] q l by simp
  then show ?thesis using q l s r by blast
qed

section \<open>The edge/repeat timer\<close>

lemma timerFinal_Cons: "timerFinal s (f # fs) = timerFinal (fst (navTimer (snd f) (fst f) s)) fs"
  by (cases f) simp

lemma timerOuts_Cons:
  "timerOuts s (f # fs) =
     snd (navTimer (snd f) (fst f) s) # timerOuts (fst (navTimer (snd f) (fst f) s)) fs"
  by (cases f) simp

lemma timerFinal_append: "timerFinal s (xs @ ys) = timerFinal (timerFinal s xs) ys"
  by (induction xs arbitrary: s) (simp_all add: timerFinal_Cons)

lemma timerOuts_append: "timerOuts s (xs @ ys) = timerOuts s xs @ timerOuts (timerFinal s xs) ys"
  by (induction xs arbitrary: s) (simp_all add: timerFinal_Cons timerOuts_Cons)

lemma length_timerOuts: "length (timerOuts s fs) = length fs"
  by (induction fs arbitrary: s) (simp_all add: timerOuts_Cons)

lemma timerFinal_active: "fst (timerFinal s fs) = (if fs = [] then fst s else snd (last fs))"
proof (induction fs arbitrary: s)
  case Nil
  show ?case by simp
next
  case (Cons f fs)
  obtain t d where f: "f = (t, d)" by (cases f)
  show ?case using Cons.IH [of "fst (navTimer d t s)"] by (simp add: f navTimer_active)
qed






subsection \<open>Rounding\<close>















subsection \<open>Spacing of repeats\<close>








lemma edge_when_not_active:
  "fst (timerFinal s pre) \<noteq> Some d \<Longrightarrow>
   timerOuts s (pre @ [(t, Some d)]) ! length pre = [Nav d Edge]"
  by (simp add: timerOuts_append nth_append length_timerOuts navTimer_def)

lemma after_none_idle:
  assumes "\<forall>f \<in> set nones. snd f = None"
  shows "fst (timerFinal s (pre @ (t0, None) # nones)) = None"
proof (cases nones)
  case Nil
  then show ?thesis by (simp add: timerFinal_active)
next
  case (Cons a as)
  then have "snd (last nones) = None" using assms by (metis last_in_set list.distinct(1))
  then show ?thesis using Cons by (simp add: timerFinal_active)
qed

text \<open>
  C2. A frame whose resolved direction is none resets the timer to (none, 0) and emits no nav
  event, whatever the state and the timestamp. When the direction comes back after such a
  frame (any number of further none frames in between), the frame that brings it back emits a
  nav event of mode edge, not repeat, whatever direction was active before and whatever the
  timestamps are.
\<close>

theorem C2_none_resets_then_edge:
  "navTimer None ts s = ((None, 0), []) \<and>
   (resolveDir (im_gamepad (fst (update f m))) (im_preferGamepad (fst (update f m)))
      (f_arrowDir f) = None
    \<longrightarrow> im_activeDir (fst (update f m)) = None \<and> im_nextRepeatAt (fst (update f m)) = 0 \<and>
        filter isNav (snd (update f m)) = []) \<and>
   ((\<forall>x \<in> set nones. snd x = None)
    \<longrightarrow> timerOuts s (pre @ (t0, None) # nones @ [(t, Some d)]) !
          Suc (length pre + length nones) = [Nav d Edge])"
proof -
  have a: "navTimer None ts' s' = ((None, 0), [])" for ts' s'
    by (simp add: navTimer_def)
  have b: "im_activeDir (fst (update f m)) = None \<and> im_nextRepeatAt (fst (update f m)) = 0 \<and>
        filter isNav (snd (update f m)) = []"
    if r: "resolveDir (im_gamepad (fst (update f m))) (im_preferGamepad (fst (update f m)))
      (f_arrowDir f) = None"
  proof -
    have "(im_activeDir (fst (update f m)), im_nextRepeatAt (fst (update f m))) = (None, 0)"
      using update_timer [of f m] by (simp only: r a fst_conv)
    moreover have "filter isNav (snd (update f m)) = []"
      using update_events [of f m] by (simp add: r a)
    ultimately show ?thesis by simp
  qed
  have c: "timerOuts s (pre @ (t0, None) # nones @ [(t, Some d)]) !
          Suc (length pre + length nones) = [Nav d Edge]"
    if n: "\<forall>x \<in> set nones. snd x = None"
  proof -
    have "fst (timerFinal s (pre @ (t0, None) # nones)) \<noteq> Some d"
      using after_none_idle [OF n, of s pre t0] by simp
    then have "timerOuts s ((pre @ (t0, None) # nones) @ [(t, Some d)]) !
        length (pre @ (t0, None) # nones) = [Nav d Edge]"
      by (rule edge_when_not_active)
    then show ?thesis by simp
  qed
  show ?thesis using a b c by blast
qed

theorem C2_none_resets_then_edge_witness:
  "resolveDir (im_gamepad (fst (update (noPadFrame 400) input_init)))
     (im_preferGamepad (fst (update (noPadFrame 400) input_init)))
     (f_arrowDir (noPadFrame 400)) = None \<and>
   im_activeDir (fst (update (noPadFrame 400) input_init)) = None \<and>
   map snd [(410 :: real, None :: direction option)] = [None] \<and>
   timerOuts (None, 0)
     ([(0, Some DirRight), (300, Some DirRight)] @ (400, None) # [(410, None)] @
      [(420, Some DirRight)]) !
     Suc (length [(0 :: real, Some DirRight), (300, Some DirRight)] +
          length [(410 :: real, None :: direction option)]) = [Nav DirRight Edge]"
proof -
  have h1: "resolveDir (im_gamepad (fst (update (noPadFrame 400) input_init)))
     (im_preferGamepad (fst (update (noPadFrame 400) input_init)))
     (f_arrowDir (noPadFrame 400)) = None"
    by (simp add: update_gamepad update_prefer noPadFrame_def input_init_def
        gamepad_update_def resolveDir_def getDpad_def)
  have h2: "\<forall>x \<in> set [(410 :: real, None :: direction option)]. snd x = None"
    by simp
  note th = C2_none_resets_then_edge [of 0 "(None, 0)" "noPadFrame 400" input_init
      "[(410, None)]" "[(0, Some DirRight), (300, Some DirRight)]" 400 420 DirRight]
  have c1: "im_activeDir (fst (update (noPadFrame 400) input_init)) = None"
    using th h1 by blast
  have c2: "timerOuts (None, 0)
     ([(0, Some DirRight), (300, Some DirRight)] @ (400, None) # [(410, None)] @
      [(420, Some DirRight)]) !
     Suc (length [(0 :: real, Some DirRight), (300, Some DirRight)] +
          length [(410 :: real, None :: direction option)]) = [Nav DirRight Edge]"
    using th h2 by blast
  have h0: "map snd [(410 :: real, None :: direction option)] = [None]"
    by simp
  show ?thesis using h1 h0 c1 c2 by blast
qed

section \<open>Select events, device preference and the press snapshot\<close>

lemma run_fst_Cons: "fst (run m (f # fs)) = fst (run (fst (update f m)) fs)"
  by (simp split: prod.splits)

lemma run_fst_append: "fst (run m (xs @ ys)) = fst (run (fst (run m xs)) ys)"
  by (induction xs arbitrary: m) (simp_all add: run_fst_Cons del: run.simps(2))

lemma prefer_stays: "im_preferGamepad m \<Longrightarrow> im_preferGamepad (fst (run m fs))"
  by (induction fs arbitrary: m) (simp_all add: run_fst_Cons update_prefer del: run.simps(2))

lemma pressEdges_Nil: "pressEdges bs [] = bs"
  by (induction bs) simp_all

lemma nthOrFalse_pressEdges:
  "nthOrFalse (pressEdges bs prev) i = (nthOrFalse bs i \<and> \<not> nthOrFalse prev i)"
proof (induction bs prev arbitrary: i rule: pressEdges.induct)
  case (1 prev)
  show ?case by (simp add: nthOrFalse_def)
next
  case (2 now bs)
  show ?case by (simp add: pressEdges_Nil nthOrFalse_def)
next
  case (3 now bs p ps)
  show ?case using "3.IH" [of "i - 1"] by (cases i) (auto simp: nthOrFalse_def)
qed

lemma justPressed_update:
  "firstConnected pads = Some p \<Longrightarrow> buttonIndex name = Some i \<Longrightarrow>
   justPressed (gamepad_update pads g) name =
     (nthOrFalse (buttons p) i \<and> \<not> nthOrFalse (gm_prevButtons g) i)"
  by (simp add: justPressed_def gamepad_update_Some nthOrFalse_pressEdges)

lemma buttonIndex_A: "buttonIndex ''A'' = Some 0"
  by (simp add: buttonIndex_def)

lemma select_events:
  "filter isSelect (snd (update f m)) =
     (if (im_preferGamepad (fst (update f m)) \<and>
            justPressed (im_gamepad (fst (update f m))) ''A'') \<or> f_kSelect f
      then [Select (if im_preferGamepad (fst (update f m)) then Gamepad else Keyboard)]
      else [])"
  using navTimer_events [of "resolveDir (im_gamepad (fst (update f m)))
      (im_preferGamepad (fst (update f m))) (f_arrowDir f)" "f_ts f"
      "(im_activeDir m, im_nextRepeatAt m)"]
  by (auto simp: update_events)

lemma nav_events:
  "filter isNav (snd (update f m)) =
     snd (navTimer
           (resolveDir (im_gamepad (fst (update f m))) (im_preferGamepad (fst (update f m)))
              (f_arrowDir f))
           (f_ts f) (im_activeDir m, im_nextRepeatAt m))"
  using navTimer_events [of "resolveDir (im_gamepad (fst (update f m)))
      (im_preferGamepad (fst (update f m))) (f_arrowDir f)" "f_ts f"
      "(im_activeDir m, im_nextRepeatAt m)"]
  by (auto simp: update_events)

lemma select_mem:
  "(Select src \<in> set (snd (update f m))) = (Select src \<in> set (filter isSelect (snd (update f m))))"
  by simp

text \<open>
  C3, as the claim states it, fails: with a pad connected (so the gamepad is the authoritative
  device) and its A button up, a press of the keyboard's select key emits a select event, and
  that event's source says gamepad.
\<close>

theorem C3_select_counterexample:
  "im_preferGamepad (fst (update ((padFrame 0 [False] [0, 0])\<lparr>f_kSelect := True\<rparr>) input_init)) \<and>
   \<not> justPressed
       (im_gamepad (fst (update ((padFrame 0 [False] [0, 0])\<lparr>f_kSelect := True\<rparr>) input_init)))
       ''A'' \<and>
   snd (update ((padFrame 0 [False] [0, 0])\<lparr>f_kSelect := True\<rparr>) input_init) =
     [Select Gamepad]"
  by (simp add: update_def Let_def padFrame_def input_init_def gamepad_init_def
      gamepad_update_def isConnected_def justPressed_def buttonIndex_def nthOrFalse_def
      resolveDir_def getDpad_def dpadDir_def getStick_def axisOrZero_def
      getDominantDirFromAxes_def deadzone_def navTimer_def)

text \<open>
  C3, amended. On every frame a select event is emitted exactly when the gamepad is preferred
  and its A button is reported just pressed, or the keyboard reports its select key just
  pressed (the keyboard is listened to whichever device is preferred). On a polled pad, A is
  just pressed exactly when it is down now and was not down in the retained snapshot. The
  source is keyboard whenever the gamepad is not preferred, and gamepad whenever the preferred
  gamepad's A button was just pressed. For A down, down, up, down over four frames of a
  connected pad, select fires on the first and the fourth frame only.
\<close>

theorem C3_select_on_press_edge:
  "((\<exists>src. Select src \<in> set (snd (update f m))) =
      ((im_preferGamepad (fst (update f m)) \<and>
          justPressed (im_gamepad (fst (update f m))) ''A'') \<or> f_kSelect f)) \<and>
   (firstConnected (f_pads f) = Some p
    \<longrightarrow> justPressed (im_gamepad (fst (update f m))) ''A'' =
          (nthOrFalse (buttons p) 0 \<and> \<not> nthOrFalse (gm_prevButtons (im_gamepad m)) 0)) \<and>
   (Select src \<in> set (snd (update f m)) \<and> \<not> im_preferGamepad (fst (update f m))
    \<longrightarrow> src = Keyboard) \<and>
   (Select src \<in> set (snd (update f m)) \<and> im_preferGamepad (fst (update f m)) \<and>
      justPressed (im_gamepad (fst (update f m))) ''A''
    \<longrightarrow> src = Gamepad) \<and>
   map (filter isSelect)
     (snd (run input_init
        [padFrame 0 [True] [0, 0], padFrame 16 [True] [0, 0],
         padFrame 32 [False] [0, 0], padFrame 48 [True] [0, 0]])) =
     [[Select Gamepad], [], [], [Select Gamepad]]"
proof -
  have a: "(\<exists>src. Select src \<in> set (snd (update f m))) =
      ((im_preferGamepad (fst (update f m)) \<and>
          justPressed (im_gamepad (fst (update f m))) ''A'') \<or> f_kSelect f)"
    unfolding select_mem by (simp add: select_events)
  have b: "justPressed (im_gamepad (fst (update f m))) ''A'' =
          (nthOrFalse (buttons p) 0 \<and> \<not> nthOrFalse (gm_prevButtons (im_gamepad m)) 0)"
    if "firstConnected (f_pads f) = Some p"
    by (simp add: update_gamepad justPressed_update [OF that buttonIndex_A])
  have c: "src = Keyboard"
    if "Select src \<in> set (snd (update f m))" and "\<not> im_preferGamepad (fst (update f m))"
    using that unfolding select_mem by (simp add: select_events split: if_splits)
  have d: "src = Gamepad"
    if "Select src \<in> set (snd (update f m))" and "im_preferGamepad (fst (update f m))"
      and "justPressed (im_gamepad (fst (update f m))) ''A''"
    using that unfolding select_mem by (simp add: select_events split: if_splits)
  have e: "map (filter isSelect)
     (snd (run input_init
        [padFrame 0 [True] [0, 0], padFrame 16 [True] [0, 0],
         padFrame 32 [False] [0, 0], padFrame 48 [True] [0, 0]])) =
     [[Select Gamepad], [], [], [Select Gamepad]]"
    by (simp add: update_def Let_def padFrame_def input_init_def gamepad_init_def
        gamepad_update_def isConnected_def justPressed_def buttonIndex_def nthOrFalse_def
        resolveDir_def getDpad_def dpadDir_def getStick_def axisOrZero_def
        getDominantDirFromAxes_def deadzone_def navTimer_def)
  show ?thesis using a b c d e by blast
qed

theorem C3_select_on_press_edge_witness:
  "firstConnected (f_pads (padFrame 0 [True] [0, 0])) =
     Some \<lparr>connected = True, buttons = [True], axes = [0, 0]\<rparr> \<and>
   Select Gamepad \<in> set (snd (update (padFrame 0 [True] [0, 0]) input_init)) \<and>
   im_preferGamepad (fst (update (padFrame 0 [True] [0, 0]) input_init)) \<and>
   justPressed (im_gamepad (fst (update (padFrame 0 [True] [0, 0]) input_init))) ''A'' \<and>
   Select Keyboard \<in> set (snd (update ((noPadFrame 0)\<lparr>f_kSelect := True\<rparr>) input_init)) \<and>
   \<not> im_preferGamepad (fst (update ((noPadFrame 0)\<lparr>f_kSelect := True\<rparr>) input_init))"
proof -
  let ?p = "\<lparr>connected = True, buttons = [True], axes = [0, 0 :: real]\<rparr>"
  let ?f = "padFrame 0 [True] [0, 0]"
  let ?k = "(noPadFrame 0)\<lparr>f_kSelect := True\<rparr>"
  have q: "firstConnected (f_pads ?f) = Some ?p"
    by (simp add: padFrame_def)
  have pf: "im_preferGamepad (fst (update ?f input_init))"
    by (simp add: update_prefer q)
  have jp: "justPressed (im_gamepad (fst (update ?f input_init))) ''A''"
    using C3_select_on_press_edge [of ?f input_init ?p] q
    by (simp add: nthOrFalse_def input_init_def gamepad_init_def)
  have "\<exists>src. Select src \<in> set (snd (update ?f input_init))"
    using C3_select_on_press_edge [of ?f input_init] pf jp by blast
  then obtain src where src: "Select src \<in> set (snd (update ?f input_init))" ..
  then have "src = Gamepad"
    using C3_select_on_press_edge [of ?f input_init _ src] pf jp by blast
  then have sg: "Select Gamepad \<in> set (snd (update ?f input_init))"
    using src by simp
  have pk: "\<not> im_preferGamepad (fst (update ?k input_init))"
    by (simp add: update_prefer noPadFrame_def input_init_def)
  have "f_kSelect ?k" by simp
  then have "\<exists>src. Select src \<in> set (snd (update ?k input_init))"
    using C3_select_on_press_edge [of ?k input_init] by blast
  then obtain src' where src': "Select src' \<in> set (snd (update ?k input_init))" ..
  then have "src' = Keyboard"
    using C3_select_on_press_edge [of ?k input_init _ src'] pk by blast
  then have sk: "Select Keyboard \<in> set (snd (update ?k input_init))"
    using src' by simp
  show ?thesis using q sg pf jp sk pk by blast
qed

lemma getStick_connected:
  "firstConnected pads = Some p \<Longrightarrow>
   getStick (gamepad_update pads g) ''LEFT'' = (axisOrZero (axes p) 0, axisOrZero (axes p) 1)"
  by (simp add: getStick_def gamepad_update_Some)

text \<open>
  C4. The claim: for a connected pad whose left stick has a magnitude below the adapter's
  deadzone 0.15, \<^verbatim>\<open>getStick('LEFT')\<close> reports (0, 0). The code declares that deadzone and
  never applies it: with the stick at (0.1, 0), magnitude 0.1, \<^verbatim>\<open>getStick('LEFT')\<close> of the
  polled adapter is (0.1, 0), not (0, 0).
\<close>

theorem C4_getStick_ignores_deadzone:
  "sqrt ((1 / 10)\<^sup>2 + 0\<^sup>2) < gm_deadzone \<and>
   isConnected (gamepad_update (f_pads (padFrame 0 [] [1 / 10, 0])) gamepad_init) \<and>
   getStick (gamepad_update (f_pads (padFrame 0 [] [1 / 10, 0])) gamepad_init) ''LEFT'' =
     (1 / 10, 0) \<and>
   getStick (gamepad_update (f_pads (padFrame 0 [] [1 / 10, 0])) gamepad_init) ''LEFT'' \<noteq>
     (0, 0)"
proof -
  have "sqrt ((1 / 10)\<^sup>2 + 0\<^sup>2) < gm_deadzone"
    unfolding gm_deadzone_def by (rule real_less_lsqrt) (simp_all add: power2_eq_square)
  moreover have "getStick (gamepad_update (f_pads (padFrame 0 [] [1 / 10, 0])) gamepad_init)
      ''LEFT'' = (1 / 10, 0)"
    by (simp add: padFrame_def gamepad_update_def Let_def getStick_def axisOrZero_def)
  moreover have "isConnected (gamepad_update (f_pads (padFrame 0 [] [1 / 10, 0])) gamepad_init)"
    by (simp add: padFrame_def isConnected_update)
  ultimately show ?thesis by simp
qed

text \<open>
  C5. On a tick that polls a connected pad the preference becomes gamepad, and it is gamepad
  after every later tick of the update loop, whatever those ticks poll (also with the pad
  gone).
\<close>

theorem C5_prefer_gamepad_latches:
  "firstConnected (f_pads f) \<noteq> None \<Longrightarrow> im_preferGamepad (fst (run m (pre @ f # post)))"
  by (simp add: run_fst_append run_fst_Cons prefer_stays update_prefer del: run.simps(2))

theorem C5_prefer_gamepad_latches_witness:
  "\<not> im_preferGamepad (fst (run input_init [noPadFrame 0])) \<and>
   firstConnected (f_pads (padFrame 16 [] [])) \<noteq> None \<and>
   im_preferGamepad (fst (run input_init ([noPadFrame 0] @ padFrame 16 [] [] # []))) \<and>
   im_preferGamepad
     (fst (run input_init ([noPadFrame 0] @ padFrame 16 [] [] # [noPadFrame 32, noPadFrame 48])))"
proof -
  have i: "\<not> im_preferGamepad (fst (run input_init [noPadFrame 0]))"
    by (simp add: run_fst_Cons update_prefer noPadFrame_def input_init_def del: run.simps(2))
  have h: "firstConnected (f_pads (padFrame 16 [] [])) \<noteq> None"
    by (simp add: padFrame_def)
  show ?thesis
    using i h C5_prefer_gamepad_latches [OF h, of input_init "[noPadFrame 0]" "[]"]
      C5_prefer_gamepad_latches [OF h, of input_init "[noPadFrame 0]"
        "[noPadFrame 32, noPadFrame 48]"]
    by blast
qed

text \<open>
  C9. One call of \<^verbatim>\<open>update\<close> emits at most one nav event and at most one select event,
  whatever the adapters report and whatever the timestamp.
\<close>

theorem C9_at_most_one_nav_and_select:
  "length (filter isNav (snd (update f m))) \<le> 1 \<and>
   length (filter isSelect (snd (update f m))) \<le> 1"
  using navTimer_events [of "resolveDir (im_gamepad (fst (update f m)))
      (im_preferGamepad (fst (update f m))) (f_arrowDir f)" "f_ts f"
      "(im_activeDir m, im_nextRepeatAt m)"]
  by (auto simp: select_events nav_events)

theorem C9_at_most_one_nav_and_select_witness:
  "snd (update (padFrame 0 (dpadLeftButtons[0 := True]) [0, 0]) input_init) =
     [Select Gamepad, Nav DirLeft Edge] \<and>
   length (filter isNav
     (snd (update (padFrame 0 (dpadLeftButtons[0 := True]) [0, 0]) input_init))) \<le> 1 \<and>
   length (filter isSelect
     (snd (update (padFrame 0 (dpadLeftButtons[0 := True]) [0, 0]) input_init))) \<le> 1"
proof -
  have "snd (update (padFrame 0 (dpadLeftButtons[0 := True]) [0, 0]) input_init) =
     [Select Gamepad, Nav DirLeft Edge]"
    by (simp add: update_def Let_def padFrame_def input_init_def gamepad_init_def
        gamepad_update_def isConnected_def justPressed_def buttonIndex_def nthOrFalse_def
        resolveDir_def getDpad_def dpadDir_def dpadLeftButtons_def navTimer_def)
  then show ?thesis
    using C9_at_most_one_nav_and_select
      [of "padFrame 0 (dpadLeftButtons[0 := True]) [0, 0]" input_init]
    by blast
qed

lemma buttonIndex_names:
  "(buttonIndex name \<noteq> None) =
   (name \<in> set [''A'', ''B'', ''X'', ''Y'', ''LB'', ''RB'', ''LT'', ''RT'', ''VIEW'', ''MENU''])"
  by (simp add: buttonIndex_def)

lemma justPressed_unmapped: "buttonIndex name = None \<Longrightarrow> \<not> justPressed g name"
  by (simp add: justPressed_def)

text \<open>
  C10, as the claim states it, fails for the buttons \<^verbatim>\<open>justPressed\<close> has no name for: on
  the first poll after a poll without pad, with d-pad left (button 14) down, the array
  \<^verbatim>\<open>_justPressed\<close> flags button 14, and \<^verbatim>\<open>justPressed('LEFT')\<close> answers false.
\<close>

theorem C10_unmapped_button_counterexample:
  "firstConnected (f_pads (noPadFrame 0)) = None \<and>
   nthOrFalse dpadLeftButtons 14 \<and>
   nthOrFalse
     (gm_justPressed
       (gamepad_update (f_pads (padFrame 16 dpadLeftButtons []))
         (gamepad_update (f_pads (noPadFrame 0)) gamepad_init))) 14 \<and>
   \<not> justPressed
       (gamepad_update (f_pads (padFrame 16 dpadLeftButtons []))
         (gamepad_update (f_pads (noPadFrame 0)) gamepad_init)) ''LEFT''"
  by (simp add: noPadFrame_def padFrame_def gamepad_update_def Let_def gamepad_init_def
      justPressed_def buttonIndex_def nthOrFalse_def dpadLeftButtons_def)

text \<open>
  C10, amended. A poll that finds no connected pad clears the retained snapshot
  \<^verbatim>\<open>_prevButtons\<close>. On the next poll that finds a pad, the array \<^verbatim>\<open>_justPressed\<close> is
  the array of the buttons down on that frame, and \<^verbatim>\<open>justPressed\<close> answers true for every
  button it maps by name (A, B, X, Y, LB, RB, LT, RT, VIEW, MENU) that is down, whatever was
  held before the pad went away. For every other name it answers false.
\<close>

theorem C10_reconnect_reports_fresh_press:
  "(firstConnected pads0 = None
    \<longrightarrow> gm_prevButtons (gamepad_update pads0 g) = [] \<and>
        (firstConnected pads1 = Some p
         \<longrightarrow> gm_justPressed (gamepad_update pads1 (gamepad_update pads0 g)) = buttons p \<and>
             (buttonIndex name = Some i
              \<longrightarrow> justPressed (gamepad_update pads1 (gamepad_update pads0 g)) name =
                    nthOrFalse (buttons p) i))) \<and>
   (buttonIndex name = None \<longrightarrow> \<not> justPressed g name) \<and>
   ((buttonIndex name \<noteq> None) =
      (name \<in> set [''A'', ''B'', ''X'', ''Y'', ''LB'', ''RB'', ''LT'', ''RT'', ''VIEW'',
                   ''MENU'']))"
proof -
  have a: "gm_prevButtons (gamepad_update pads0 g) = []" if "firstConnected pads0 = None"
    by (simp add: gamepad_update_None [OF that])
  have b: "gm_justPressed (gamepad_update pads1 (gamepad_update pads0 g)) = buttons p"
    if "firstConnected pads0 = None" and "firstConnected pads1 = Some p"
    by (simp add: gamepad_update_Some [OF that(2)] a [OF that(1)] pressEdges_Nil)
  have c: "justPressed (gamepad_update pads1 (gamepad_update pads0 g)) name =
      nthOrFalse (buttons p) i"
    if "firstConnected pads0 = None" and "firstConnected pads1 = Some p"
      and "buttonIndex name = Some i"
    by (simp add: justPressed_update [OF that(2) that(3)] a [OF that(1)] nthOrFalse_def)
  have d: "buttonIndex name = None \<longrightarrow> \<not> justPressed g name"
    by (simp add: justPressed_unmapped)
  have e: "(buttonIndex name \<noteq> None) =
      (name \<in> set [''A'', ''B'', ''X'', ''Y'', ''LB'', ''RB'', ''LT'', ''RT'', ''VIEW'',
                   ''MENU''])"
    by (rule buttonIndex_names)
  show ?thesis using a b c d e by blast
qed

theorem C10_reconnect_reports_fresh_press_witness:
  "gm_prevButtons (gamepad_update (f_pads (padFrame 0 [True] [])) gamepad_init) = [True] \<and>
   \<not> justPressed
       (gamepad_update (f_pads (padFrame 16 [True] []))
         (gamepad_update (f_pads (padFrame 0 [True] [])) gamepad_init)) ''A'' \<and>
   firstConnected (f_pads (noPadFrame 16)) = None \<and>
   firstConnected (f_pads (padFrame 32 [True] [])) =
     Some \<lparr>connected = True, buttons = [True], axes = []\<rparr> \<and>
   buttonIndex ''A'' = Some 0 \<and>
   justPressed
     (gamepad_update (f_pads (padFrame 32 [True] []))
       (gamepad_update (f_pads (noPadFrame 16))
         (gamepad_update (f_pads (padFrame 0 [True] [])) gamepad_init))) ''A'' \<and>
   buttonIndex ''HOME'' = None \<and>
   \<not> justPressed
       (gamepad_update (f_pads (padFrame 32 [True] []))
         (gamepad_update (f_pads (noPadFrame 16))
           (gamepad_update (f_pads (padFrame 0 [True] [])) gamepad_init))) ''HOME''"
proof -
  let ?p = "\<lparr>connected = True, buttons = [True], axes = [] :: real list\<rparr>"
  let ?g = "gamepad_update (f_pads (padFrame 0 [True] [])) gamepad_init"
  let ?g2 = "gamepad_update (f_pads (padFrame 32 [True] []))
       (gamepad_update (f_pads (noPadFrame 16)) ?g)"
  have h0: "gm_prevButtons ?g = [True]"
    by (simp add: padFrame_def gamepad_update_def Let_def)
  have held: "\<not> justPressed (gamepad_update (f_pads (padFrame 16 [True] [])) ?g) ''A''"
    by (simp add: padFrame_def gamepad_update_def Let_def gamepad_init_def justPressed_def
        buttonIndex_def nthOrFalse_def)
  have n: "firstConnected (f_pads (noPadFrame 16)) = None"
    by (simp add: noPadFrame_def)
  have q: "firstConnected (f_pads (padFrame 32 [True] [])) = Some ?p"
    by (simp add: padFrame_def)
  have "justPressed ?g2 ''A'' = nthOrFalse (buttons ?p) 0"
    using C10_reconnect_reports_fresh_press
      [of "f_pads (noPadFrame 16)" ?g "f_pads (padFrame 32 [True] [])" ?p "''A''" 0]
      n q buttonIndex_A
    by blast
  then have j: "justPressed ?g2 ''A''"
    by (simp add: nthOrFalse_def)
  have u: "buttonIndex ''HOME'' = None"
    by (simp add: buttonIndex_def)
  have k: "\<not> justPressed ?g2 ''HOME''"
    using C10_reconnect_reports_fresh_press [of _ ?g2 _ _ "''HOME''"] u by blast
  show ?thesis using h0 held n q buttonIndex_A j u k by blast
qed

end
